theory Spec2Isabelle
  imports Main "HOL-Library.Multiset"
begin

section \<open>Community service: data model\<close>

text \<open>
  The controller \<^verbatim>\<open>communityController.js\<close> answers HTTP requests by issuing
  calls to a relational store. The model below keeps the store as an explicit value
  (\<open>world\<close>) that every handler takes and returns, keeps every thrown storage error
  as a value (\<open>Inl\<close>), and keeps the handlers' \<^verbatim>\<open>try/catch\<close> as a combinator.

  The path parameter \<^verbatim>\<open>:id\<close> is the number that the path segment denotes, of any
  size: the handlers pass the segment on unvalidated, and the storage layer throws when
  it has to read as an INTEGER a number outside the range of that type. (A segment that
  denotes no number has no value here; the storage layer throws for it as well.)
  \<^verbatim>\<open>req.user.id\<close> is an integer. Timestamps are natural numbers. The
  logger has no effect on responses or on the store and is left out. The router puts
  the authentication middleware in front of every handler that reads
  \<^verbatim>\<open>req.user\<close>, so a request carries its caller.
\<close>

datatype json =
    JNull
  | JBool bool
  | JNum int
  | JStr string
  | JArr "json list"
  | JObj "(string \<times> json) list"

text \<open>A row of \<^verbatim>\<open>communities\<close> (models/Community.js: id, name, language, description).\<close>

record community =
  c_id :: int
  c_name :: string
  c_language :: "string option"
  c_description :: "string option"

text \<open>
  The \<^verbatim>\<open>users\<close> table belongs to another service. Only the columns that the
  member query selects are known; their values are carried as JSON values.
\<close>

record user_row =
  u_id :: int
  u_name :: json
  u_email :: json
  u_profile_picture :: json

text \<open>A row of \<^verbatim>\<open>user_communities\<close> (the DDL in \<^verbatim>\<open>createUserCommunityModel\<close>).\<close>

record membership =
  uc_id :: int
  user_id :: int
  community_id :: int
  joined_at :: nat

text \<open>The table together with the sequence behind its SERIAL column.\<close>

record uc_table =
  uc_rows :: "membership list"
  uc_seq :: int

datatype storage_error = StorageError string

datatype query =
    CommunityCreate string "string option" "string option"
  | CommunityFindAll
  | CommunityFindByPk int
  | CreateTableIfNotExists
  | InsertMembership int int
  | DeleteMembership int int
  | SelectMembers int
  | SelectUserCommunities int

text \<open>
  The store and its environment:
  \<^item> the three tables (\<open>user_communities\<close> is \<open>None\<close> until it has been created),
  \<^item> the sequence of \<^verbatim>\<open>communities.id\<close> and the value of CURRENT\_TIMESTAMP,
  \<^item> \<open>faults\<close>: what the storage layer will do to the coming calls, in order
    (\<open>Some detail\<close>: the call throws with that detail; \<open>None\<close> or no entry: the call runs),
  \<^item> \<open>issued\<close>: the calls the storage layer has received, each with the error it threw.
\<close>

record world =
  communities :: "community list"
  communities_seq :: int
  users :: "user_row list"
  user_communities :: "uc_table option"
  current_timestamp :: nat
  faults :: "string option list"
  issued :: "(query \<times> storage_error option) list"

type_synonym 'a storage = "world \<Rightarrow> (storage_error + 'a) \<times> world"

record caller =
  caller_id :: int
  caller_role :: string

text \<open>
  The JSON body of a create request, \<^verbatim>\<open>{name, language?, description?}\<close>;
  \<open>None\<close> is a field that is missing.
\<close>

record req_body =
  b_name :: "string option"
  b_language :: "string option"
  b_description :: "string option"

record request =
  req_user :: caller
  req_params_id :: int
  req_body :: req_body

record response =
  res_status :: nat
  res_body :: json

section \<open>Storage layer\<close>

definition membership_rows :: "world \<Rightarrow> membership list" where
  "membership_rows w = (case user_communities w of None \<Rightarrow> [] | Some t \<Rightarrow> uc_rows t)"

definition is_pair :: "int \<Rightarrow> int \<Rightarrow> membership \<Rightarrow> bool" where
  "is_pair userId communityId r \<longleftrightarrow> user_id r = userId \<and> community_id r = communityId"

text \<open>The values of an INTEGER column: 32 bits, signed.\<close>

definition integer_range :: "int \<Rightarrow> bool" where
  "integer_range k \<longleftrightarrow> - 2147483648 \<le> k \<and> k \<le> 2147483647"

definition out_of_range :: storage_error where
  "out_of_range = StorageError ''value is out of range for type integer''"

text \<open>
  One call to the storage layer: it throws if a fault is scheduled for it, runs
  otherwise, and is recorded with its outcome either way.
\<close>

definition storage_call :: "query \<Rightarrow> 'a storage \<Rightarrow> 'a storage" where
  "storage_call q run w =
     (case faults w of
        Some detail # rest \<Rightarrow>
          (Inl (StorageError detail),
           w\<lparr>faults := rest, issued := issued w @ [(q, Some (StorageError detail))]\<rparr>)
      | None # rest \<Rightarrow>
          (case run (w\<lparr>faults := rest\<rparr>) of
             (r, w') \<Rightarrow>
               (r, w'\<lparr>issued := issued w' @ [(q, case r of Inl e \<Rightarrow> Some e | Inr _ \<Rightarrow> None)]\<rparr>))
      | [] \<Rightarrow>
          (case run w of
             (r, w') \<Rightarrow>
               (r, w'\<lparr>issued := issued w' @ [(q, case r of Inl e \<Rightarrow> Some e | Inr _ \<Rightarrow> None)]\<rparr>)))"

text \<open>
  Modelled from the spec: \<^verbatim>\<open>Community.create\<close> of the ORM, which is not part of
  the sources. It "inserts a new Community row" and "returns the persisted entity
  including its assigned identifier", the next value of the auto-increment key that
  models/Community.js declares. The key is an INTEGER: a value of the sequence beyond
  its range is used up and the insert throws.
\<close>

definition Community_create :: "string \<Rightarrow> string option \<Rightarrow> string option \<Rightarrow> community storage" where
  "Community_create n l d =
     storage_call (CommunityCreate n l d)
       (\<lambda>w. let c = \<lparr>c_id = communities_seq w, c_name = n, c_language = l, c_description = d\<rparr>
            in if \<not> integer_range (communities_seq w)
               then (Inl out_of_range, w\<lparr>communities_seq := communities_seq w + 1\<rparr>)
               else (Inr c, w\<lparr>communities := communities w @ [c],
                              communities_seq := communities_seq w + 1\<rparr>))"

text \<open>
  Modelled from the spec: \<^verbatim>\<open>Community.findAll\<close> of the ORM, which is not part of
  the sources. It "returns every Community row".
\<close>

definition Community_findAll :: "community list storage" where
  "Community_findAll = storage_call CommunityFindAll (\<lambda>w. (Inr (communities w), w))"

text \<open>
  Modelled from the spec: \<^verbatim>\<open>Community.findByPk\<close> of the ORM, which is not part of
  the sources. It "returns the single matching Community or an explicit not-found
  signal"; the key is the column \<open>id\<close>, an INTEGER, and the lookup throws when the
  value it is given is outside the range of that type.
\<close>

definition Community_findByPk :: "int \<Rightarrow> community option storage" where
  "Community_findByPk communityId =
     storage_call (CommunityFindByPk communityId)
       (\<lambda>w. if \<not> integer_range communityId then (Inl out_of_range, w)
            else (Inr (find (\<lambda>c. c_id c = communityId) (communities w)), w))"

text \<open>
  \<^verbatim>\<open>CREATE TABLE IF NOT EXISTS user_communities (...)\<close>. The function's own
  \<^verbatim>\<open>catch\<close> logs and rethrows, so an error passes through unchanged.
\<close>

definition createUserCommunityModel :: "unit storage" where
  "createUserCommunityModel =
     storage_call CreateTableIfNotExists
       (\<lambda>w. (Inr (),
             case user_communities w of
               None \<Rightarrow> w\<lparr>user_communities := Some \<lparr>uc_rows = [], uc_seq = 1\<rparr>\<rparr>
             | Some _ \<Rightarrow> w))"

definition no_such_table :: storage_error where
  "no_such_table = StorageError ''relation user_communities does not exist''"

definition foreign_key_violation :: storage_error where
  "foreign_key_violation = StorageError ''insert on user_communities violates a foreign key''"

text \<open>
  \<^verbatim>\<open>INSERT INTO user_communities (user_id, community_id) VALUES (:userId, :communityId)
  ON CONFLICT (user_id, community_id) DO NOTHING\<close>.
  The value of \<^verbatim>\<open>:communityId\<close> is read as an INTEGER first, which throws outside
  the range of the type. Then the defaults of the new row (the next value of the
  sequence, CURRENT\_TIMESTAMP) are computed; a row with the same pair makes the
  statement do nothing; the two REFERENCES constraints of the DDL are checked on the row
  that is inserted.
\<close>

definition insert_user_community :: "int \<Rightarrow> int \<Rightarrow> unit storage" where
  "insert_user_community userId communityId =
     storage_call (InsertMembership userId communityId)
       (\<lambda>w. if \<not> integer_range communityId then (Inl out_of_range, w) else
            case user_communities w of
               None \<Rightarrow> (Inl no_such_table, w)
             | Some t \<Rightarrow>
                 let row = \<lparr>uc_id = uc_seq t, user_id = userId, community_id = communityId,
                            joined_at = current_timestamp w\<rparr>;
                     t1 = t\<lparr>uc_seq := uc_seq t + 1\<rparr>
                 in if \<exists>r \<in> set (uc_rows t). is_pair userId communityId r
                    then (Inr (), w\<lparr>user_communities := Some t1\<rparr>)
                    else if userId \<notin> set (map u_id (users w)) \<or>
                            communityId \<notin> set (map c_id (communities w))
                    then (Inl foreign_key_violation, w\<lparr>user_communities := Some t1\<rparr>)
                    else (Inr (), w\<lparr>user_communities := Some (t1\<lparr>uc_rows := uc_rows t @ [row]\<rparr>)\<rparr>))"

text \<open>
  \<^verbatim>\<open>DELETE FROM user_communities WHERE user_id = :userId AND community_id = :communityId\<close>,
  sent with \<^verbatim>\<open>type: sequelize.QueryTypes.DELETE\<close>. The value of
  \<^verbatim>\<open>:communityId\<close> is read as an INTEGER, which throws outside the range of the type.
  For a query of this type the driver returns the rows of the statement and nothing
  else; the statement has no RETURNING clause, so the result is the empty array. The
  number of deleted rows is not part of it.
\<close>

definition delete_user_community :: "int \<Rightarrow> int \<Rightarrow> json list storage" where
  "delete_user_community userId communityId =
     storage_call (DeleteMembership userId communityId)
       (\<lambda>w. if \<not> integer_range communityId then (Inl out_of_range, w) else
            case user_communities w of
               None \<Rightarrow> (Inl no_such_table, w)
             | Some t \<Rightarrow>
                 (Inr [],
                  w\<lparr>user_communities :=
                      Some (t\<lparr>uc_rows := filter (\<lambda>r. \<not> is_pair userId communityId r) (uc_rows t)\<rparr>)\<rparr>))"

text \<open>
  \<^verbatim>\<open>result[i]\<close> on an array: the element, or \<^verbatim>\<open>undefined\<close> (\<open>None\<close>) beyond
  its end.
\<close>

definition result_at :: "json list \<Rightarrow> nat \<Rightarrow> json option" where
  "result_at xs i = (if i < length xs then Some (xs ! i) else None)"

text \<open>A row of the member query: \<^verbatim>\<open>u.id, u.name, u.email, u.profile_picture, uc.joined_at\<close>.\<close>

record member =
  m_id :: int
  m_name :: json
  m_email :: json
  m_profile_picture :: json
  m_joined_at :: nat

definition member_of :: "user_row \<Rightarrow> membership \<Rightarrow> member" where
  "member_of u uc =
     \<lparr>m_id = u_id u, m_name = u_name u, m_email = u_email u,
      m_profile_picture = u_profile_picture u, m_joined_at = joined_at uc\<rparr>"

text \<open>
  \<^verbatim>\<open>SELECT ... FROM users u JOIN user_communities uc ON u.id = uc.user_id
  WHERE uc.community_id = :communityId ORDER BY uc.joined_at ASC\<close>.
  Rows with equal \<open>joined_at\<close> come in an order SQL leaves open; the model keeps the
  order of the join for them. The value of \<^verbatim>\<open>:communityId\<close> is read as an INTEGER,
  which throws outside the range of the type.
\<close>

definition members_join :: "int \<Rightarrow> user_row list \<Rightarrow> membership list \<Rightarrow> member list" where
  "members_join communityId us rows =
     concat (map (\<lambda>u. map (member_of u)
                        (filter (\<lambda>uc. u_id u = user_id uc \<and> community_id uc = communityId) rows)) us)"

definition select_members :: "int \<Rightarrow> member list storage" where
  "select_members communityId =
     storage_call (SelectMembers communityId)
       (\<lambda>w. if \<not> integer_range communityId then (Inl out_of_range, w) else
            case user_communities w of
               None \<Rightarrow> (Inl no_such_table, w)
             | Some t \<Rightarrow>
                 (Inr (sort_key m_joined_at (members_join communityId (users w) (uc_rows t))), w))"

text \<open>
  \<^verbatim>\<open>SELECT c.* FROM communities c JOIN user_communities uc ON c.id = uc.community_id
  WHERE uc.user_id = :userId\<close>.
\<close>

definition select_user_communities :: "int \<Rightarrow> community list storage" where
  "select_user_communities userId =
     storage_call (SelectUserCommunities userId)
       (\<lambda>w. case user_communities w of
               None \<Rightarrow> (Inl no_such_table, w)
             | Some t \<Rightarrow>
                 (Inr (concat (map (\<lambda>c. map (\<lambda>uc. c)
                                 (filter (\<lambda>uc. c_id c = community_id uc \<and> user_id uc = userId)
                                    (uc_rows t))) (communities w))), w))"

section \<open>Handlers\<close>

text \<open>
  \<open>await m k\<close> is \<^verbatim>\<open>const x = await m; k(x)\<close>: an error thrown by \<open>m\<close> skips
  \<open>k\<close>. \<open>reply r\<close> is \<^verbatim>\<open>return r\<close>. \<open>try_catch\<close> is the handler's
  \<^verbatim>\<open>try { ... } catch (error) { ... }\<close>.
\<close>

definition await :: "'a storage \<Rightarrow> ('a \<Rightarrow> 'b storage) \<Rightarrow> 'b storage" where
  "await m k w = (case m w of (Inl e, w') \<Rightarrow> (Inl e, w') | (Inr x, w') \<Rightarrow> k x w')"

definition reply :: "response \<Rightarrow> response storage" where
  "reply r w = (Inr r, w)"

definition try_catch :: "response storage \<Rightarrow> (storage_error \<Rightarrow> response) \<Rightarrow> world \<Rightarrow> response \<times> world" where
  "try_catch body handler w =
     (case body w of (Inl e, w') \<Rightarrow> (handler e, w') | (Inr r, w') \<Rightarrow> (r, w'))"

text \<open>\<^verbatim>\<open>res.status(s).json(b)\<close>.\<close>

definition respond :: "nat \<Rightarrow> json \<Rightarrow> response" where
  "respond s b = \<lparr>res_status = s, res_body = b\<rparr>"

definition nullable :: "string option \<Rightarrow> json" where
  "nullable v = (case v of None \<Rightarrow> JNull | Some s \<Rightarrow> JStr s)"

definition community_json :: "community \<Rightarrow> json" where
  "community_json c =
     JObj [(''id'', JNum (c_id c)), (''name'', JStr (c_name c)),
           (''language'', nullable (c_language c)),
           (''description'', nullable (c_description c))]"

definition member_json :: "member \<Rightarrow> json" where
  "member_json m =
     JObj [(''id'', JNum (m_id m)), (''name'', m_name m), (''email'', m_email m),
           (''profile_picture'', m_profile_picture m),
           (''joined_at'', JNum (int (m_joined_at m)))]"

text \<open>\<^verbatim>\<open>!name\<close> on a string that may be missing.\<close>

definition falsy :: "string option \<Rightarrow> bool" where
  "falsy v = (case v of None \<Rightarrow> True | Some s \<Rightarrow> s = [])"

definition createCommunity :: "request \<Rightarrow> world \<Rightarrow> response \<times> world" where
  "createCommunity req =
     try_catch
       (if caller_role (req_user req) \<noteq> ''admin''
        then reply (respond 403 (JObj [(''error'', JStr ''Only admins can create communities'')]))
        else if falsy (b_name (req_body req))
        then reply (respond 400 (JObj [(''error'', JStr ''Community name is required'')]))
        else await (Community_create (the (b_name (req_body req)))
                      (b_language (req_body req)) (b_description (req_body req)))
               (\<lambda>community. reply (respond 201 (community_json community))))
       (\<lambda>error. respond 500 (JObj [(''error'', JStr ''Internal server error'')]))"

definition getAllCommunities :: "request \<Rightarrow> world \<Rightarrow> response \<times> world" where
  "getAllCommunities req =
     try_catch
       (await Community_findAll
          (\<lambda>communities. reply (respond 200 (JArr (map community_json communities)))))
       (\<lambda>error. respond 500 (JObj [(''error'', JStr ''Internal server error'')]))"

definition getCommunityById :: "request \<Rightarrow> world \<Rightarrow> response \<times> world" where
  "getCommunityById req =
     try_catch
       (await (Community_findByPk (req_params_id req))
          (\<lambda>community.
             case community of
               None \<Rightarrow> reply (respond 404 (JObj [(''error'', JStr ''Community not found'')]))
             | Some c \<Rightarrow> reply (respond 200 (community_json c))))
       (\<lambda>error. respond 500 (JObj [(''error'', JStr ''Internal server error'')]))"

definition joinCommunity :: "request \<Rightarrow> world \<Rightarrow> response \<times> world" where
  "joinCommunity req =
     try_catch
       (let userId = caller_id (req_user req); communityId = req_params_id req in
        await (Community_findByPk communityId)
          (\<lambda>community.
             if community = None
             then reply (respond 404 (JObj [(''error'', JStr ''Community not found'')]))
             else await createUserCommunityModel
                    (\<lambda>_. await (insert_user_community userId communityId)
                    (\<lambda>_. reply (respond 200
                            (JObj [(''message'', JStr ''Successfully joined community'')]))))))
       (\<lambda>error. respond 500 (JObj [(''error'', JStr ''Internal server error'')]))"

definition leaveCommunity :: "request \<Rightarrow> world \<Rightarrow> response \<times> world" where
  "leaveCommunity req =
     try_catch
       (let userId = caller_id (req_user req); communityId = req_params_id req in
        await createUserCommunityModel
          (\<lambda>_. await (delete_user_community userId communityId)
          (\<lambda>result.
             if result_at result 1 = Some (JNum 0)
             then reply (respond 404 (JObj [(''error'', JStr ''Membership not found'')]))
             else reply (respond 200
                    (JObj [(''message'', JStr ''Successfully left community'')])))))
       (\<lambda>error. respond 500 (JObj [(''error'', JStr ''Internal server error'')]))"

definition getCommunityMembers :: "request \<Rightarrow> world \<Rightarrow> response \<times> world" where
  "getCommunityMembers req =
     try_catch
       (let communityId = req_params_id req in
        await (Community_findByPk communityId)
          (\<lambda>community.
             if community = None
             then reply (respond 404 (JObj [(''error'', JStr ''Community not found'')]))
             else await createUserCommunityModel
                    (\<lambda>_. await (select_members communityId)
                    (\<lambda>members. reply (respond 200 (JArr (map member_json members)))))))
       (\<lambda>error. respond 500 (JObj [(''error'', JStr ''Internal server error'')]))"

definition getUserCommunities :: "request \<Rightarrow> world \<Rightarrow> response \<times> world" where
  "getUserCommunities req =
     try_catch
       (let userId = caller_id (req_user req) in
        await createUserCommunityModel
          (\<lambda>_. await (select_user_communities userId)
          (\<lambda>communities. reply (respond 200 (JArr (map community_json communities))))))
       (\<lambda>error. respond 500 (JObj [(''error'', JStr ''Internal server error'')]))"

section \<open>Constraints of the schema\<close>

text \<open>
  What the storage layer keeps true: the primary keys, the type of the column
  \<open>communities.id\<close>, the UNIQUE pair and the two REFERENCES constraints of
  \<open>user_communities\<close>, and a sequence ahead of every key it has handed out.
\<close>

definition schema_ok :: "world \<Rightarrow> bool" where
  "schema_ok w \<longleftrightarrow>
     distinct (map c_id (communities w)) \<and>
     (\<forall>c \<in> set (communities w). integer_range (c_id c)) \<and>
     (\<forall>c \<in> set (communities w). c_id c < communities_seq w) \<and>
     distinct (map u_id (users w)) \<and>
     distinct (map (\<lambda>r. (user_id r, community_id r)) (membership_rows w)) \<and>
     (\<forall>r \<in> set (membership_rows w).
        user_id r \<in> set (map u_id (users w)) \<and>
        community_id r \<in> set (map c_id (communities w)))"

text \<open>The calls a handler issued, read off the worlds before and after it.\<close>

definition new_calls :: "world \<Rightarrow> world \<Rightarrow> (query \<times> storage_error option) list" where
  "new_calls w w' = drop (length (issued w)) (issued w')"

definition failed :: "(query \<times> storage_error option) list \<Rightarrow> bool" where
  "failed cs \<longleftrightarrow> (\<exists>c \<in> set cs. snd c \<noteq> None)"

text \<open>
  A storage computation is \<open>traced Q\<close> when it only appends calls to \<open>issued\<close>,
  every call it appends is one of \<open>Q\<close>, and it throws exactly when one of them failed.
\<close>

definition traced :: "query set \<Rightarrow> 'a storage \<Rightarrow> bool" where
  "traced Q m \<longleftrightarrow>
     (\<forall>w. \<exists>new. issued (snd (m w)) = issued w @ new \<and> fst ` set new \<subseteq> Q \<and>
               (isl (fst (m w)) \<longleftrightarrow> failed new))"

text \<open>Everything but the membership rows of one (user, community) pair.\<close>

definition others :: "int \<Rightarrow> int \<Rightarrow> world \<Rightarrow> community list \<times> user_row list \<times> membership list" where
  "others userId communityId w =
     (communities w, users w, filter (\<lambda>r. \<not> is_pair userId communityId r) (membership_rows w))"

definition handlers :: "(request \<Rightarrow> world \<Rightarrow> response \<times> world) list" where
  "handlers = [createCommunity, getAllCommunities, getCommunityById, joinCommunity,
               leaveCommunity, getCommunityMembers, getUserCommunities]"

text \<open>
  The replies a handler sends from its \<^verbatim>\<open>try\<close> block: a success, or a client
  error whose body is an object with the one field \<open>error\<close>.
\<close>

definition client_reply :: "response \<Rightarrow> bool" where
  "client_reply r \<longleftrightarrow>
     res_status r \<in> {200, 201} \<or>
     (res_status r \<in> {400, 403, 404} \<and>
      (\<exists>msg. msg \<noteq> [] \<and> res_body r = JObj [(''error'', JStr msg)]))"

text \<open>Every reply the computation returns satisfies \<open>P\<close>.\<close>

definition answers :: "(response \<Rightarrow> bool) \<Rightarrow> response storage \<Rightarrow> bool" where
  "answers P m \<longleftrightarrow> (\<forall>w r w'. m w = (Inr r, w') \<longrightarrow> P r)"

text \<open>The reply of every handler's \<^verbatim>\<open>catch\<close> block.\<close>

definition internal_server_error :: response where
  "internal_server_error = respond 500 (JObj [(''error'', JStr ''Internal server error'')])"

text \<open>
  What a handler \<open>h\<close> does with errors: it sends the reply of the \<^verbatim>\<open>catch\<close>
  block exactly when one of its storage calls failed, every 500 is that reply, every
  error reply is an object with the one field \<open>error\<close>, and it issues calls of
  \<open>Q\<close> only.
\<close>

definition uniform_errors :: "query set \<Rightarrow> (world \<Rightarrow> response \<times> world) \<Rightarrow> bool" where
  "uniform_errors Q h \<longleftrightarrow>
     (\<forall>w. (failed (new_calls w (snd (h w))) \<longleftrightarrow> fst (h w) = internal_server_error) \<and>
          (res_status (fst (h w)) = 500 \<longrightarrow> fst (h w) = internal_server_error) \<and>
          (res_status (fst (h w)) \<in> {400, 403, 404, 500} \<longrightarrow>
             (\<exists>msg. msg \<noteq> [] \<and> res_body (fst (h w)) = JObj [(''error'', JStr msg)])) \<and>
          res_status (fst (h w)) \<in> {200, 201, 400, 403, 404, 500} \<and>
          fst ` set (new_calls w (snd (h w))) \<subseteq> Q)"

section \<open>Two joins at once\<close>








section \<open>A sample store\<close>

text \<open>
  Two communities and three users. In community 1 carol has the latest \<open>joined_at\<close>
  (30) and her row comes first in the table; alice has 10 and bob 20. Nobody joined
  community 2.
\<close>

definition sample_world :: world where
  "sample_world =
     \<lparr>communities =
        [\<lparr>c_id = 1, c_name = ''Rustaceans'', c_language = Some ''rust'', c_description = None\<rparr>,
         \<lparr>c_id = 2, c_name = ''Gophers'', c_language = Some ''go'', c_description = Some ''Go users''\<rparr>],
      communities_seq = 3,
      users =
        [\<lparr>u_id = 10, u_name = JStr ''alice'', u_email = JStr ''alice@example.org'',
          u_profile_picture = JNull\<rparr>,
         \<lparr>u_id = 11, u_name = JStr ''bob'', u_email = JStr ''bob@example.org'',
          u_profile_picture = JNull\<rparr>,
         \<lparr>u_id = 12, u_name = JStr ''carol'', u_email = JStr ''carol@example.org'',
          u_profile_picture = JStr ''carol.png''\<rparr>],
      user_communities =
        Some \<lparr>uc_rows =
                [\<lparr>uc_id = 1, user_id = 12, community_id = 1, joined_at = 30\<rparr>,
                 \<lparr>uc_id = 2, user_id = 10, community_id = 1, joined_at = 10\<rparr>,
                 \<lparr>uc_id = 3, user_id = 11, community_id = 1, joined_at = 20\<rparr>],
              uc_seq = 4\<rparr>,
      current_timestamp = 40,
      faults = [],
      issued = []\<rparr>"

definition sample_request :: "int \<Rightarrow> string \<Rightarrow> int \<Rightarrow> request" where
  "sample_request userId r communityId =
     \<lparr>req_user = \<lparr>caller_id = userId, caller_role = r\<rparr>,
      req_params_id = communityId,
      req_body = \<lparr>b_name = None, b_language = None, b_description = None\<rparr>\<rparr>"

section \<open>Rules for the combinators\<close>

lemmas monad_defs = await_def reply_def try_catch_def respond_def storage_call_def

lemmas storage_defs =
  Community_create_def Community_findAll_def Community_findByPk_def
  createUserCommunityModel_def insert_user_community_def delete_user_community_def
  select_members_def select_user_communities_def no_such_table_def
  foreign_key_violation_def out_of_range_def integer_range_def result_at_def

lemmas handler_defs =
  createCommunity_def getAllCommunities_def getCommunityById_def joinCommunity_def
  leaveCommunity_def getCommunityMembers_def getUserCommunities_def

lemmas sample_defs = sample_world_def sample_request_def

lemma find_by_key:
  "distinct (map f xs) \<Longrightarrow> c \<in> set xs \<Longrightarrow> find (\<lambda>x. f x = f c) xs = Some c"
  by (induction xs) (auto simp: image_iff)

lemma find_none_key:
  "k \<notin> set (map f xs) \<Longrightarrow> find (\<lambda>x. f x = k) xs = None"
  by (induction xs) auto

lemma find_some_key:
  "k \<in> set (map f xs) \<Longrightarrow> \<exists>c. find (\<lambda>x. f x = k) xs = Some c"
  by (induction xs) auto

subsection \<open>Frame rules\<close>

text \<open>
  A projection \<open>f\<close> of the world that no step changes is not changed by the whole
  computation. The rules follow the structure of a handler.
\<close>

lemma storage_call_frame:
  assumes run: "\<And>w. f (snd (run w)) = f w"
    and fl: "\<And>w x. f (w\<lparr>faults := x\<rparr>) = f w"
    and iss: "\<And>w x. f (w\<lparr>issued := x\<rparr>) = f w"
  shows "f (snd (storage_call q run w)) = f w"
proof (cases "faults w")
  case Nil
  obtain r w' where rw: "run w = (r, w')" by (cases "run w")
  with run [of w] have "f w' = f w" by simp
  with Nil rw show ?thesis by (simp add: storage_call_def iss)
next
  case (Cons a rest)
  show ?thesis
  proof (cases a)
    case None
    obtain r w' where rw: "run (w\<lparr>faults := rest\<rparr>) = (r, w')"
      by (cases "run (w\<lparr>faults := rest\<rparr>)")
    with run [of "w\<lparr>faults := rest\<rparr>"] have "f w' = f w" by (simp add: fl)
    with Cons None rw show ?thesis by (simp add: storage_call_def iss)
  next
    case (Some d)
    have "f (w\<lparr>faults := rest, issued := issued w @ [(q, Some (StorageError d))]\<rparr>) = f w"
      by (simp add: fl iss)
    with Cons Some show ?thesis by (simp add: storage_call_def)
  qed
qed

lemma await_frame:
  assumes "\<And>w. f (snd (m w)) = f w" and "\<And>x w. f (snd (k x w)) = f w"
  shows "f (snd (await m k w)) = f w"
proof (cases "m w")
  case (Pair r w')
  with assms(1) [of w] have fw: "f w' = f w" by simp
  show ?thesis
  proof (cases r)
    case (Inl e)
    with Pair fw show ?thesis by (simp add: await_def)
  next
    case (Inr x)
    with Pair fw assms(2) [of x w'] show ?thesis by (simp add: await_def)
  qed
qed

lemma reply_frame: "f (snd (reply r w)) = f w"
  by (simp add: reply_def)

lemma try_catch_frame:
  assumes "\<And>w. f (snd (body w)) = f w"
  shows "f (snd (try_catch body h w)) = f w"
  using assms [of w] by (cases "body w") (auto simp: try_catch_def split: sum.splits)

lemma others_faults [simp]: "others u c (w\<lparr>faults := x\<rparr>) = others u c w"
  by (simp add: others_def membership_rows_def)

lemma others_issued [simp]: "others u c (w\<lparr>issued := x\<rparr>) = others u c w"
  by (simp add: others_def membership_rows_def)

lemma findByPk_others: "others u c (snd (Community_findByPk k w)) = others u c w"
  unfolding Community_findByPk_def by (rule storage_call_frame) simp_all

lemma createUserCommunityModel_others:
  "others u c (snd (createUserCommunityModel w)) = others u c w"
  unfolding createUserCommunityModel_def
  by (rule storage_call_frame) (simp_all add: others_def membership_rows_def split: option.splits)

lemma insert_others: "others u c (snd (insert_user_community u c w)) = others u c w"
  unfolding insert_user_community_def
  by (rule storage_call_frame)
     (simp_all add: others_def membership_rows_def Let_def is_pair_def split: option.splits)

lemma delete_others: "others u c (snd (delete_user_community u c w)) = others u c w"
  unfolding delete_user_community_def
  by (rule storage_call_frame)
     (simp_all add: others_def membership_rows_def split: option.splits)

lemma join_others:
  "others (caller_id (req_user req)) (req_params_id req) (snd (joinCommunity req w)) =
   others (caller_id (req_user req)) (req_params_id req) w"
  unfolding joinCommunity_def Let_def
  apply (rule try_catch_frame)
  apply (rule await_frame)
   apply (rule findByPk_others)
  apply (simp only: split: if_split)
  apply (intro conjI impI)
   apply (rule reply_frame)
  apply (rule await_frame)
   apply (rule createUserCommunityModel_others)
  apply (rule await_frame)
   apply (rule insert_others)
  apply (rule reply_frame)
  done

lemma leave_others:
  "others (caller_id (req_user req)) (req_params_id req) (snd (leaveCommunity req w)) =
   others (caller_id (req_user req)) (req_params_id req) w"
  unfolding leaveCommunity_def Let_def
  apply (rule try_catch_frame)
  apply (rule await_frame)
   apply (rule createUserCommunityModel_others)
  apply (rule await_frame)
   apply (rule delete_others)
  apply (simp only: split: if_split)
  apply (intro conjI impI)
   apply (rule reply_frame)
  apply (rule reply_frame)
  done

subsection \<open>Trace rules\<close>

lemma failed_simps [simp]:
  "failed [] = False"
  "failed (xs @ ys) = (failed xs \<or> failed ys)"
  "failed [(q, None)] = False"
  "failed [(q, Some e)] = True"
  by (auto simp: failed_def)

lemma traced_reply: "traced Q (reply r)"
  by (simp add: traced_def reply_def)

lemma traced_await:
  assumes m: "traced Q m" and k: "\<And>x. traced Q (k x)"
  shows "traced Q (await m k)"
  unfolding traced_def
proof
  fix w
  obtain r w1 where mw: "m w = (r, w1)" by (cases "m w")
  from m obtain new1 where n1: "issued w1 = issued w @ new1" "fst ` set new1 \<subseteq> Q"
      "isl r \<longleftrightarrow> failed new1"
    using mw unfolding traced_def by (metis fst_conv snd_conv)
  show "\<exists>new. issued (snd (await m k w)) = issued w @ new \<and> fst ` set new \<subseteq> Q \<and>
          (isl (fst (await m k w)) \<longleftrightarrow> failed new)"
  proof (cases r)
    case (Inl e)
    with mw n1 show ?thesis by (auto simp: await_def)
  next
    case (Inr x)
    from k [of x] obtain new2 where n2: "issued (snd (k x w1)) = issued w1 @ new2"
        "fst ` set new2 \<subseteq> Q" "isl (fst (k x w1)) \<longleftrightarrow> failed new2"
      unfolding traced_def by blast
    from Inr mw have "await m k w = k x w1" by (simp add: await_def)
    with n1 n2 Inr show ?thesis
      by (intro exI [of _ "new1 @ new2"]) auto
  qed
qed

lemma traced_storage_call:
  assumes silent: "\<And>w. issued (snd (run w)) = issued w" and q: "q \<in> Q"
  shows "traced Q (storage_call q run)"
  unfolding traced_def
proof
  fix w
  show "\<exists>new. issued (snd (storage_call q run w)) = issued w @ new \<and> fst ` set new \<subseteq> Q \<and>
          (isl (fst (storage_call q run w)) \<longleftrightarrow> failed new)"
  proof (cases "faults w")
    case Nil
    obtain r w' where rw: "run w = (r, w')" by (cases "run w")
    with silent [of w] have "issued w' = issued w" by simp
    with Nil rw q show ?thesis
      by (cases r) (auto simp: storage_call_def)
  next
    case (Cons a rest)
    show ?thesis
    proof (cases a)
      case None
      obtain r w' where rw: "run (w\<lparr>faults := rest\<rparr>) = (r, w')"
        by (cases "run (w\<lparr>faults := rest\<rparr>)")
      with silent [of "w\<lparr>faults := rest\<rparr>"] have "issued w' = issued w" by simp
      with Cons None rw q show ?thesis
        by (cases r) (auto simp: storage_call_def)
    next
      case (Some d)
      with Cons q show ?thesis by (auto simp: storage_call_def)
    qed
  qed
qed

lemma traced_primitives:
  "CommunityCreate n l d \<in> Q \<Longrightarrow> traced Q (Community_create n l d)"
  "CommunityFindAll \<in> Q \<Longrightarrow> traced Q Community_findAll"
  "CommunityFindByPk k \<in> Q \<Longrightarrow> traced Q (Community_findByPk k)"
  "CreateTableIfNotExists \<in> Q \<Longrightarrow> traced Q createUserCommunityModel"
  "InsertMembership u c \<in> Q \<Longrightarrow> traced Q (insert_user_community u c)"
  "DeleteMembership u c \<in> Q \<Longrightarrow> traced Q (delete_user_community u c)"
  "SelectMembers c \<in> Q \<Longrightarrow> traced Q (select_members c)"
  "SelectUserCommunities u \<in> Q \<Longrightarrow> traced Q (select_user_communities u)"
  unfolding storage_defs
  by (rule traced_storage_call; simp add: Let_def split: option.splits)+

lemma answers_reply: "P r \<Longrightarrow> answers P (reply r)"
  by (simp add: answers_def reply_def)

lemma answers_await: "(\<And>x. answers P (k x)) \<Longrightarrow> answers P (await m k)"
  by (auto simp: answers_def await_def split: prod.splits sum.splits)

lemma client_reply_simps [simp]:
  "client_reply (respond 200 b)"
  "client_reply (respond 201 b)"
  "client_reply (respond 400 (JObj [(''error'', JStr (x # xs))]))"
  "client_reply (respond 403 (JObj [(''error'', JStr (x # xs))]))"
  "client_reply (respond 404 (JObj [(''error'', JStr (x # xs))]))"
  by (simp_all add: client_reply_def respond_def)

lemma handler_outcome:
  assumes t: "traced Q body" and a: "answers client_reply body"
  shows "uniform_errors Q
           (try_catch body (\<lambda>e. respond 500 (JObj [(''error'', JStr ''Internal server error'')])))"
  unfolding uniform_errors_def
proof
  fix w
  let ?h = "try_catch body (\<lambda>e. respond 500 (JObj [(''error'', JStr ''Internal server error'')]))"
  obtain r w' where bw: "body w = (r, w')" by (cases "body w")
  from t obtain new where n: "issued w' = issued w @ new" "fst ` set new \<subseteq> Q"
      "isl r \<longleftrightarrow> failed new"
    using bw unfolding traced_def by (metis fst_conv snd_conv)
  then have nc: "new_calls w w' = new" by (simp add: new_calls_def)
  show "(failed (new_calls w (snd (?h w))) \<longleftrightarrow> fst (?h w) = internal_server_error) \<and>
          (res_status (fst (?h w)) = 500 \<longrightarrow> fst (?h w) = internal_server_error) \<and>
          (res_status (fst (?h w)) \<in> {400, 403, 404, 500} \<longrightarrow>
             (\<exists>msg. msg \<noteq> [] \<and> res_body (fst (?h w)) = JObj [(''error'', JStr msg)])) \<and>
          res_status (fst (?h w)) \<in> {200, 201, 400, 403, 404, 500} \<and>
          fst ` set (new_calls w (snd (?h w))) \<subseteq> Q"
  proof (cases r)
    case (Inl e)
    with bw n nc show ?thesis
      by (simp add: try_catch_def respond_def internal_server_error_def)
  next
    case (Inr x)
    with a bw have "client_reply x" by (auto simp: answers_def)
    with Inr bw n nc show ?thesis
      by (auto simp: try_catch_def respond_def client_reply_def internal_server_error_def)
  qed
qed

lemmas body_rules =
  traced_reply traced_await traced_primitives answers_reply answers_await

lemma createCommunity_uniform: "uniform_errors UNIV (createCommunity req)"
  unfolding createCommunity_def
  by (rule handler_outcome) (simp_all add: body_rules)

lemma getAllCommunities_uniform: "uniform_errors UNIV (getAllCommunities req)"
  unfolding getAllCommunities_def
  by (rule handler_outcome) (simp_all add: body_rules)

lemma getCommunityById_uniform: "uniform_errors UNIV (getCommunityById req)"
  unfolding getCommunityById_def
  by (rule handler_outcome) (simp_all add: body_rules split: option.splits)

lemma joinCommunity_uniform: "uniform_errors UNIV (joinCommunity req)"
  unfolding joinCommunity_def Let_def
  by (rule handler_outcome) (simp_all add: body_rules)

lemma leaveCommunity_uniform:
  "uniform_errors
     {CreateTableIfNotExists, DeleteMembership (caller_id (req_user req)) (req_params_id req)}
     (leaveCommunity req)"
  unfolding leaveCommunity_def Let_def
  by (rule handler_outcome) (simp_all add: body_rules)

lemma getCommunityMembers_uniform: "uniform_errors UNIV (getCommunityMembers req)"
  unfolding getCommunityMembers_def Let_def
  by (rule handler_outcome) (simp_all add: body_rules)

lemma getUserCommunities_uniform: "uniform_errors UNIV (getUserCommunities req)"
  unfolding getUserCommunities_def Let_def
  by (rule handler_outcome) (simp_all add: body_rules)

lemma uniform_errors_mono: "uniform_errors Q h \<Longrightarrow> Q \<subseteq> Q' \<Longrightarrow> uniform_errors Q' h"
  unfolding uniform_errors_def by blast

lemma handlers_uniform:
  assumes "h \<in> set handlers"
  shows "uniform_errors UNIV (h req)"
  using assms createCommunity_uniform getAllCommunities_uniform getCommunityById_uniform
    joinCommunity_uniform getCommunityMembers_uniform getUserCommunities_uniform
    uniform_errors_mono [OF leaveCommunity_uniform, of req UNIV]
  by (auto simp: handlers_def)

subsection \<open>Invariant rules\<close>

lemma storage_call_inv:
  assumes run: "\<And>w. P w \<Longrightarrow> P (snd (run w))"
    and fl: "\<And>w x. P (w\<lparr>faults := x\<rparr>) = P w"
    and iss: "\<And>w x. P (w\<lparr>issued := x\<rparr>) = P w"
    and w: "P w"
  shows "P (snd (storage_call q run w))"
proof (cases "faults w")
  case Nil
  obtain r w' where rw: "run w = (r, w')" by (cases "run w")
  with run [OF w] have "P w'" by simp
  with Nil rw show ?thesis by (simp add: storage_call_def iss)
next
  case (Cons a rest)
  show ?thesis
  proof (cases a)
    case None
    obtain r w' where rw: "run (w\<lparr>faults := rest\<rparr>) = (r, w')"
      by (cases "run (w\<lparr>faults := rest\<rparr>)")
    from w have "P (w\<lparr>faults := rest\<rparr>)" by (simp add: fl)
    from run [OF this] rw have "P w'" by simp
    with Cons None rw show ?thesis by (simp add: storage_call_def iss)
  next
    case (Some d)
    from w have "P (w\<lparr>faults := rest, issued := issued w @ [(q, Some (StorageError d))]\<rparr>)"
      by (simp add: fl iss)
    with Cons Some show ?thesis by (simp add: storage_call_def)
  qed
qed

lemma await_inv:
  assumes "\<And>w. P w \<Longrightarrow> P (snd (m w))" and "\<And>x w. P w \<Longrightarrow> P (snd (k x w))" and "P w"
  shows "P (snd (await m k w))"
proof (cases "m w")
  case (Pair r w')
  with assms(1) [OF assms(3)] have pw: "P w'" by simp
  show ?thesis
  proof (cases r)
    case (Inl e)
    with Pair pw show ?thesis by (simp add: await_def)
  next
    case (Inr x)
    with Pair assms(2) [OF pw, of x] show ?thesis by (simp add: await_def)
  qed
qed

lemma reply_inv: "P w \<Longrightarrow> P (snd (reply r w))"
  by (simp add: reply_def)

lemma try_catch_inv:
  assumes "\<And>w. P w \<Longrightarrow> P (snd (body w))" and "P w"
  shows "P (snd (try_catch body h w))"
  using assms(1) [OF assms(2)] by (cases "body w") (auto simp: try_catch_def split: sum.splits)

text \<open>
  Every handler keeps the constraints of the schema, whatever the storage layer does:
  the stores that satisfy \<open>schema_ok\<close> are closed under the service.
\<close>

lemma schema_ok_faults [simp]: "schema_ok (w\<lparr>faults := x\<rparr>) = schema_ok w"
  by (simp add: schema_ok_def membership_rows_def)

lemma schema_ok_issued [simp]: "schema_ok (w\<lparr>issued := x\<rparr>) = schema_ok w"
  by (simp add: schema_ok_def membership_rows_def)

lemma create_schema_ok: "schema_ok w \<Longrightarrow> schema_ok (snd (Community_create n l d w))"
  unfolding Community_create_def
  by (rule storage_call_inv)
     (auto simp: schema_ok_def membership_rows_def Let_def split: option.splits)

lemma findAll_schema_ok: "schema_ok w \<Longrightarrow> schema_ok (snd (Community_findAll w))"
  unfolding Community_findAll_def by (rule storage_call_inv) simp_all

lemma findByPk_schema_ok: "schema_ok w \<Longrightarrow> schema_ok (snd (Community_findByPk k w))"
  unfolding Community_findByPk_def by (rule storage_call_inv) simp_all

lemma createUserCommunityModel_schema_ok:
  "schema_ok w \<Longrightarrow> schema_ok (snd (createUserCommunityModel w))"
  unfolding createUserCommunityModel_def
  by (rule storage_call_inv)
     (auto simp: schema_ok_def membership_rows_def split: option.splits)

lemma insert_schema_ok: "schema_ok w \<Longrightarrow> schema_ok (snd (insert_user_community u c w))"
  unfolding insert_user_community_def
  by (rule storage_call_inv)
     (auto simp: schema_ok_def membership_rows_def Let_def is_pair_def image_iff
        split: option.splits)

lemma delete_schema_ok: "schema_ok w \<Longrightarrow> schema_ok (snd (delete_user_community u c w))"
  unfolding delete_user_community_def
  by (rule storage_call_inv)
     (auto simp: schema_ok_def membership_rows_def distinct_map_filter split: option.splits)

lemma select_members_schema_ok: "schema_ok w \<Longrightarrow> schema_ok (snd (select_members c w))"
  unfolding select_members_def
  by (rule storage_call_inv) (auto split: option.splits)

lemma select_user_communities_schema_ok:
  "schema_ok w \<Longrightarrow> schema_ok (snd (select_user_communities u w))"
  unfolding select_user_communities_def
  by (rule storage_call_inv) (auto split: option.splits)

lemmas schema_rules =
  create_schema_ok findAll_schema_ok findByPk_schema_ok createUserCommunityModel_schema_ok
  insert_schema_ok delete_schema_ok select_members_schema_ok select_user_communities_schema_ok
  reply_inv [where P = schema_ok]

lemma handlers_keep_schema:
  assumes "h \<in> set handlers" and "schema_ok w"
  shows "schema_ok (snd (h req w))"
proof -
  have "schema_ok (snd (createCommunity req w))"
    unfolding createCommunity_def
    by (rule try_catch_inv [where P = schema_ok])
       (auto intro!: await_inv [where P = schema_ok] schema_rules assms(2))
  moreover have "schema_ok (snd (getAllCommunities req w))"
    unfolding getAllCommunities_def
    by (rule try_catch_inv [where P = schema_ok])
       (auto intro!: await_inv [where P = schema_ok] schema_rules assms(2))
  moreover have "schema_ok (snd (getCommunityById req w))"
    unfolding getCommunityById_def
    by (rule try_catch_inv [where P = schema_ok])
       (auto intro!: await_inv [where P = schema_ok] schema_rules assms(2) split: option.splits)
  moreover have "schema_ok (snd (joinCommunity req w))"
    unfolding joinCommunity_def Let_def
    by (rule try_catch_inv [where P = schema_ok])
       (auto intro!: await_inv [where P = schema_ok] schema_rules assms(2))
  moreover have "schema_ok (snd (leaveCommunity req w))"
    unfolding leaveCommunity_def Let_def
    by (rule try_catch_inv [where P = schema_ok])
       (auto intro!: await_inv [where P = schema_ok] schema_rules assms(2))
  moreover have "schema_ok (snd (getCommunityMembers req w))"
    unfolding getCommunityMembers_def Let_def
    by (rule try_catch_inv [where P = schema_ok])
       (auto intro!: await_inv [where P = schema_ok] schema_rules assms(2))
  moreover have "schema_ok (snd (getUserCommunities req w))"
    unfolding getUserCommunities_def Let_def
    by (rule try_catch_inv [where P = schema_ok])
       (auto intro!: await_inv [where P = schema_ok] schema_rules assms(2))
  ultimately show ?thesis using assms(1) by (auto simp: handlers_def)
qed

lemma sample_request_sel:
  "caller_id (req_user (sample_request u r c)) = u"
  "caller_role (req_user (sample_request u r c)) = r"
  "req_params_id (sample_request u r c) = c"
  by (simp_all add: sample_request_def)

lemma sample_schema_ok: "schema_ok sample_world"
  by (simp add: schema_ok_def sample_defs membership_rows_def integer_range_def)

subsection \<open>Storage calls that do not fail\<close>

lemma findByPk_run:
  assumes "faults w = []" and "integer_range k"
  shows "Community_findByPk k w =
           (Inr (find (\<lambda>c. c_id c = k) (communities w)),
            w\<lparr>issued := issued w @ [(CommunityFindByPk k, None)]\<rparr>)"
  using assms by (simp add: Community_findByPk_def storage_call_def)

lemma findByPk_out_of_range:
  assumes "faults w = []" and "\<not> integer_range k"
  shows "Community_findByPk k w =
           (Inl out_of_range, w\<lparr>issued := issued w @ [(CommunityFindByPk k, Some out_of_range)]\<rparr>)"
  using assms by (simp add: Community_findByPk_def storage_call_def)

lemma createUserCommunityModel_run:
  assumes "faults w = []"
  shows "createUserCommunityModel w =
           (Inr (),
            (case user_communities w of
               None \<Rightarrow> w\<lparr>user_communities := Some \<lparr>uc_rows = [], uc_seq = 1\<rparr>\<rparr>
             | Some _ \<Rightarrow> w)\<lparr>issued := issued w @ [(CreateTableIfNotExists, None)]\<rparr>)"
  using assms
  by (cases "user_communities w") (simp_all add: createUserCommunityModel_def storage_call_def)


lemma delete_run:
  assumes "faults w = []" and "integer_range c" and "user_communities w = Some t"
  shows "delete_user_community u c w =
           (Inr [],
            w\<lparr>user_communities :=
                Some (t\<lparr>uc_rows := filter (\<lambda>r. \<not> is_pair u c r) (uc_rows t)\<rparr>),
              issued := issued w @ [(DeleteMembership u c, None)]\<rparr>)"
  using assms by (simp add: delete_user_community_def storage_call_def)

subsection \<open>What the DELETE call gives back\<close>

lemma storage_call_Inr:
  assumes "storage_call q run w = (Inr x, w')"
  shows "\<exists>w0 w1. run w0 = (Inr x, w1)"
proof (cases "faults w")
  case Nil
  with assms show ?thesis
    by (cases "run w") (auto simp: storage_call_def)
next
  case (Cons a rest)
  with assms show ?thesis
    by (cases a; cases "run (w\<lparr>faults := rest\<rparr>)") (auto simp: storage_call_def)
qed

lemma delete_result:
  assumes "delete_user_community u c w = (Inr x, w')"
  shows "x = []"
proof -
  from storage_call_Inr [OF assms [unfolded delete_user_community_def]]
  show ?thesis by (auto split: if_splits option.splits)
qed

lemma answers_await_result:
  assumes "\<And>x w w'. m w = (Inr x, w') \<Longrightarrow> R x" and "\<And>x. R x \<Longrightarrow> answers P (k x)"
  shows "answers P (await m k)"
  unfolding answers_def
proof (intro allI impI)
  fix w r w'
  assume a: "await m k w = (Inr r, w')"
  obtain y w1 where mw: "m w = (y, w1)" by (cases "m w")
  show "P r"
  proof (cases y)
    case (Inl e)
    with a mw show ?thesis by (simp add: await_def)
  next
    case (Inr x)
    with mw assms(1) have "R x" by blast
    from assms(2) [OF this] a mw Inr show ?thesis by (auto simp: answers_def await_def)
  qed
qed

lemma try_catch_answers:
  assumes "answers P body" and "\<And>e. P (h e)"
  shows "P (fst (try_catch body h w))"
proof (cases "body w")
  case (Pair y w')
  with assms show ?thesis
    by (cases y) (auto simp: try_catch_def answers_def)
qed

lemma leave_never_404: "res_status (fst (leaveCommunity req w)) \<noteq> 404"
  unfolding leaveCommunity_def Let_def
proof (rule try_catch_answers [where P = "\<lambda>r. res_status r \<noteq> 404"])
  show "answers (\<lambda>r. res_status r \<noteq> 404)
     (await createUserCommunityModel
        (\<lambda>_. await (delete_user_community (caller_id (req_user req)) (req_params_id req))
        (\<lambda>result.
           if result_at result 1 = Some (JNum 0)
           then reply (respond 404 (JObj [(''error'', JStr ''Membership not found'')]))
           else reply (respond 200 (JObj [(''message'', JStr ''Successfully left community'')])))))"
  proof (rule answers_await, rule answers_await_result [where R = "\<lambda>x. x = []"])
    fix x w w'
    assume "delete_user_community (caller_id (req_user req)) (req_params_id req) w = (Inr x, w')"
    then show "x = []" by (rule delete_result)
  next
    fix x :: "json list"
    assume "x = []"
    then show "answers (\<lambda>r. res_status r \<noteq> 404)
       (if result_at x 1 = Some (JNum 0)
        then reply (respond 404 (JObj [(''error'', JStr ''Membership not found'')]))
        else reply (respond 200 (JObj [(''message'', JStr ''Successfully left community'')])))"
      by (simp add: result_at_def answers_reply respond_def)
  qed
next
  fix e
  show "res_status (respond 500 (JObj [(''error'', JStr ''Internal server error'')])) \<noteq> 404"
    by (simp add: respond_def)
qed

lemma leave_run:
  assumes "faults w = []" and "integer_range (req_params_id req)"
  shows "fst (leaveCommunity req w) =
           respond 200 (JObj [(''message'', JStr ''Successfully left community'')])"
    and "\<not> (\<exists>r \<in> set (membership_rows (snd (leaveCommunity req w))).
             is_pair (caller_id (req_user req)) (req_params_id req) r)"
    and "new_calls w (snd (leaveCommunity req w)) =
           [(CreateTableIfNotExists, None),
            (DeleteMembership (caller_id (req_user req)) (req_params_id req), None)]"
  using assms
  by (cases "user_communities w";
      simp add: leaveCommunity_def Let_def await_def try_catch_def reply_def
        createUserCommunityModel_run delete_run result_at_def membership_rows_def
        new_calls_def)+

section \<open>Leaving a community\<close>

text \<open>
  C2 says that \<open>leaveCommunity\<close> answers 404 exactly when the caller has no
  membership row for the community, and 200 after removing the row otherwise. The
  handler tests \<^verbatim>\<open>result[1] === 0\<close> for that, but the DELETE call returns the rows
  of the statement, the empty array, so \<^verbatim>\<open>result[1]\<close> is \<^verbatim>\<open>undefined\<close> and the
  test never holds. What the code does: \<open>leaveCommunity\<close> never answers 404, for any
  request, store and fault schedule; when no storage call fails and the id is within the
  range of INTEGER it answers 200 ("Successfully left community") whether or not the
  caller was a member, and the store holds no row for the pair afterwards.
\<close>

theorem leaveCommunity_never_not_found:
  "res_status (fst (leaveCommunity req w)) \<noteq> 404 \<and>
   (faults w = [] \<and> integer_range (req_params_id req) \<longrightarrow>
      fst (leaveCommunity req w) =
        respond 200 (JObj [(''message'', JStr ''Successfully left community'')]) \<and>
      \<not> (\<exists>r \<in> set (membership_rows (snd (leaveCommunity req w))).
            is_pair (caller_id (req_user req)) (req_params_id req) r))"
  using leave_never_404 [of req w] leave_run(1,2) [of w req] by blast

theorem leaveCommunity_never_not_found_witness:
  "faults sample_world = [] \<and> integer_range 2 \<and>
   \<not> (\<exists>r \<in> set (membership_rows sample_world). is_pair 10 2 r) \<and>
   fst (leaveCommunity (sample_request 10 ''user'' 2) sample_world) =
     respond 200 (JObj [(''message'', JStr ''Successfully left community'')]) \<and>
   res_status (fst (leaveCommunity (sample_request 10 ''user'' 2) sample_world)) \<noteq> 404"
proof -
  have h: "faults sample_world = []" by (simp add: sample_defs)
  have r: "integer_range 2" by (simp add: integer_range_def)
  have n: "\<not> (\<exists>r \<in> set (membership_rows sample_world). is_pair 10 2 r)"
    by (simp add: sample_defs membership_rows_def is_pair_def)
  from leaveCommunity_never_not_found [of "sample_request 10 ''user'' 2" sample_world] h r n
  show ?thesis by (simp add: sample_request_sel respond_def)
qed

section \<open>Creating a community\<close>

text \<open>
  C3. \<open>createCommunity\<close> answers 403 to every caller whose role is not
  \<open>admin\<close>, and 400 to every admin whose \<open>name\<close> is missing or empty. In both
  cases the world comes back as it was: no row is persisted and no storage call has
  been issued (\<open>issued\<close> is part of the world).
\<close>

theorem createCommunity_rejects_early:
  "(caller_role (req_user req) \<noteq> ''admin'' \<longrightarrow>
      createCommunity req w =
        (respond 403 (JObj [(''error'', JStr ''Only admins can create communities'')]), w)) \<and>
   (caller_role (req_user req) = ''admin'' \<and>
      (b_name (req_body req) = None \<or> b_name (req_body req) = Some []) \<longrightarrow>
      createCommunity req w =
        (respond 400 (JObj [(''error'', JStr ''Community name is required'')]), w))"
  by (auto simp: createCommunity_def try_catch_def reply_def falsy_def)

theorem createCommunity_rejects_early_witness:
  "caller_role (req_user (sample_request 10 ''user'' 0)) \<noteq> ''admin'' \<and>
   createCommunity (sample_request 10 ''user'' 0) sample_world =
     (respond 403 (JObj [(''error'', JStr ''Only admins can create communities'')]), sample_world) \<and>
   caller_role (req_user (sample_request 10 ''admin'' 0)) = ''admin'' \<and>
   b_name (req_body (sample_request 10 ''admin'' 0)) = None \<and>
   createCommunity (sample_request 10 ''admin'' 0) sample_world =
     (respond 400 (JObj [(''error'', JStr ''Community name is required'')]), sample_world) \<and>
   createCommunity
     ((sample_request 10 ''admin'' 0)\<lparr>req_body := \<lparr>b_name = Some [], b_language = Some ''rust'', b_description = None\<rparr>\<rparr>)
     sample_world =
     (respond 400 (JObj [(''error'', JStr ''Community name is required'')]), sample_world)"
  using createCommunity_rejects_early [of "sample_request 10 ''user'' 0" sample_world]
    createCommunity_rejects_early [of "sample_request 10 ''admin'' 0" sample_world]
    createCommunity_rejects_early [of "(sample_request 10 ''admin'' 0)\<lparr>req_body := \<lparr>b_name = Some [], b_language = Some ''rust'', b_description = None\<rparr>\<rparr>" sample_world]
  by (simp add: sample_request_def)

section \<open>Fetching a community\<close>

text \<open>
  C6, amended. When the storage call does not fail and the id of the path is within
  the range of INTEGER, \<open>getCommunityById\<close> answers 404 if no community has that id,
  and otherwise 200 with the four stored fields (id, name, language, description) of
  the row \<open>c\<close> that has it.
\<close>

theorem getCommunityById_result:
  assumes "faults w = []" and "integer_range (req_params_id req)"
  shows "(req_params_id req \<notin> set (map c_id (communities w)) \<longrightarrow>
            fst (getCommunityById req w) =
              respond 404 (JObj [(''error'', JStr ''Community not found'')])) \<and>
         (distinct (map c_id (communities w)) \<and> c \<in> set (communities w) \<and>
               c_id c = req_params_id req \<longrightarrow>
            fst (getCommunityById req w) =
              respond 200 (JObj [(''id'', JNum (c_id c)), (''name'', JStr (c_name c)),
                                 (''language'', nullable (c_language c)),
                                 (''description'', nullable (c_description c))]))"
proof (intro conjI impI)
  assume "req_params_id req \<notin> set (map c_id (communities w))"
  then have "find (\<lambda>c. c_id c = req_params_id req) (communities w) = None"
    by (rule find_none_key)
  with assms show "fst (getCommunityById req w) =
      respond 404 (JObj [(''error'', JStr ''Community not found'')])"
    by (simp add: getCommunityById_def findByPk_run await_def try_catch_def reply_def)
next
  assume h: "distinct (map c_id (communities w)) \<and> c \<in> set (communities w) \<and>
             c_id c = req_params_id req"
  then have "find (\<lambda>x. c_id x = req_params_id req) (communities w) = Some c"
    using find_by_key [of c_id "communities w" c] by auto
  with assms h show "fst (getCommunityById req w) =
      respond 200 (JObj [(''id'', JNum (c_id c)), (''name'', JStr (c_name c)),
                         (''language'', nullable (c_language c)),
                         (''description'', nullable (c_description c))])"
    by (simp add: getCommunityById_def findByPk_run await_def try_catch_def reply_def
          community_json_def)
qed

theorem getCommunityById_result_witness:
  "faults sample_world = [] \<and> integer_range 7 \<and> integer_range 2 \<and>
   fst (getCommunityById (sample_request 10 ''user'' 7) sample_world) =
     respond 404 (JObj [(''error'', JStr ''Community not found'')]) \<and>
   fst (getCommunityById (sample_request 10 ''user'' 2) sample_world) =
     respond 200 (JObj [(''id'', JNum 2), (''name'', JStr ''Gophers''),
                        (''language'', JStr ''go''), (''description'', JStr ''Go users'')])"
proof -
  have h: "faults sample_world = []" by (simp add: sample_defs)
  have r7: "integer_range (req_params_id (sample_request 10 ''user'' 7))"
    and r2: "integer_range (req_params_id (sample_request 10 ''user'' 2))"
    by (simp_all add: sample_request_sel integer_range_def)
  have a: "req_params_id (sample_request 10 ''user'' 7) \<notin> set (map c_id (communities sample_world))"
    by (simp add: sample_defs)
  have b: "distinct (map c_id (communities sample_world)) \<and>
           \<lparr>c_id = 2, c_name = ''Gophers'', c_language = Some ''go'',
            c_description = Some ''Go users''\<rparr> \<in> set (communities sample_world) \<and>
           c_id \<lparr>c_id = 2, c_name = ''Gophers'', c_language = Some ''go'',
            c_description = Some ''Go users''\<rparr> = req_params_id (sample_request 10 ''user'' 2)"
    by (simp add: sample_defs)
  from getCommunityById_result [OF h r7] a
  have "fst (getCommunityById (sample_request 10 ''user'' 7) sample_world) =
     respond 404 (JObj [(''error'', JStr ''Community not found'')])"
    by blast
  moreover
  from getCommunityById_result [OF h r2, of
      "\<lparr>c_id = 2, c_name = ''Gophers'', c_language = Some ''go'',
        c_description = Some ''Go users''\<rparr>"] b
  have "fst (getCommunityById (sample_request 10 ''user'' 2) sample_world) =
     respond 200 (JObj [(''id'', JNum 2), (''name'', JStr ''Gophers''),
                        (''language'', JStr ''go''), (''description'', JStr ''Go users'')])"
    by (simp add: nullable_def)
  ultimately show ?thesis using h by (simp add: integer_range_def)
qed

text \<open>
  C6 as stated, for every id, fails: no community of the sample store has the id
  2147483648, no storage fault is scheduled, and the lookup throws because the value
  is outside the range of INTEGER, so the reply is 500 and not 404.
\<close>

theorem getCommunityById_out_of_range:
  "req_params_id (sample_request 10 ''user'' 2147483648) \<notin>
     set (map c_id (communities sample_world)) \<and>
   faults sample_world = [] \<and>
   fst (getCommunityById (sample_request 10 ''user'' 2147483648) sample_world) =
     respond 500 (JObj [(''error'', JStr ''Internal server error'')]) \<and>
   res_status (fst (getCommunityById (sample_request 10 ''user'' 2147483648) sample_world)) \<noteq> 404"
  by (simp add: sample_defs handler_defs storage_defs monad_defs)

section \<open>Joining a community that does not exist\<close>

text \<open>
  C5, amended. If no community has the id of the path, \<open>joinCommunity\<close> leaves the
  membership table as it was and the only storage call it issues is the lookup of the
  community (so no insert), whatever the id and the fault schedule; and when that
  lookup does not fail and the id is within the range of INTEGER, it answers 404
  ("Community not found").
\<close>

theorem joinCommunity_missing_community:
  assumes "req_params_id req \<notin> set (map c_id (communities w))"
  shows "user_communities (snd (joinCommunity req w)) = user_communities w \<and>
         map fst (new_calls w (snd (joinCommunity req w))) =
           [CommunityFindByPk (req_params_id req)] \<and>
         (faults w = [] \<and> integer_range (req_params_id req) \<longrightarrow>
            fst (joinCommunity req w) =
              respond 404 (JObj [(''error'', JStr ''Community not found'')]))"
proof -
  from assms have "find (\<lambda>c. c_id c = req_params_id req) (communities w) = None"
    by (rule find_none_key)
  then show ?thesis
    by (auto simp: joinCommunity_def Community_findByPk_def monad_defs new_calls_def Let_def
          split: list.splits option.splits)
qed

theorem joinCommunity_missing_community_witness:
  "req_params_id (sample_request 10 ''user'' 7) \<notin> set (map c_id (communities sample_world)) \<and>
   faults sample_world = [] \<and> integer_range 7 \<and>
   user_communities (snd (joinCommunity (sample_request 10 ''user'' 7) sample_world)) =
     user_communities sample_world \<and>
   map fst (new_calls sample_world (snd (joinCommunity (sample_request 10 ''user'' 7) sample_world))) =
     [CommunityFindByPk 7] \<and>
   fst (joinCommunity (sample_request 10 ''user'' 7) sample_world) =
     respond 404 (JObj [(''error'', JStr ''Community not found'')])"
proof -
  have a: "req_params_id (sample_request 10 ''user'' 7) \<notin> set (map c_id (communities sample_world))"
    by (simp add: sample_defs)
  have h: "faults sample_world = []" by (simp add: sample_defs)
  have r: "integer_range 7" by (simp add: integer_range_def)
  from joinCommunity_missing_community [OF a] a h r show ?thesis
    by (simp add: sample_request_sel)
qed

text \<open>
  C5 as stated, for every community id, fails: no community of the sample store has the
  id 2147483648, no storage fault is scheduled, and the lookup throws because the value
  is outside the range of INTEGER, so the reply is 500 and not 404.
\<close>

theorem joinCommunity_out_of_range:
  "req_params_id (sample_request 10 ''user'' 2147483648) \<notin>
     set (map c_id (communities sample_world)) \<and>
   faults sample_world = [] \<and>
   fst (joinCommunity (sample_request 10 ''user'' 2147483648) sample_world) =
     respond 500 (JObj [(''error'', JStr ''Internal server error'')]) \<and>
   res_status (fst (joinCommunity (sample_request 10 ''user'' 2147483648) sample_world)) \<noteq> 404"
  by (simp add: sample_defs handler_defs storage_defs monad_defs Let_def)

section \<open>What joining and leaving may change\<close>

text \<open>
  C10. Whatever the outcome, \<open>joinCommunity\<close> and \<open>leaveCommunity\<close> leave the
  communities and the users as they were, and leave every membership row of any other
  (user, community) pair than that of the caller and the path in place and in order.
  The request body has no influence on either handler.
\<close>

theorem join_leave_frame:
  "communities (snd (joinCommunity req w)) = communities w \<and>
   communities (snd (leaveCommunity req w)) = communities w \<and>
   users (snd (joinCommunity req w)) = users w \<and>
   users (snd (leaveCommunity req w)) = users w \<and>
   filter (\<lambda>r. \<not> is_pair (caller_id (req_user req)) (req_params_id req) r)
      (membership_rows (snd (joinCommunity req w))) =
   filter (\<lambda>r. \<not> is_pair (caller_id (req_user req)) (req_params_id req) r) (membership_rows w) \<and>
   filter (\<lambda>r. \<not> is_pair (caller_id (req_user req)) (req_params_id req) r)
      (membership_rows (snd (leaveCommunity req w))) =
   filter (\<lambda>r. \<not> is_pair (caller_id (req_user req)) (req_params_id req) r) (membership_rows w) \<and>
   joinCommunity (req\<lparr>req_body := b\<rparr>) w = joinCommunity req w \<and>
   leaveCommunity (req\<lparr>req_body := b\<rparr>) w = leaveCommunity req w"
  using join_others [of req w] leave_others [of req w]
  by (simp add: others_def joinCommunity_def leaveCommunity_def)

theorem join_leave_frame_witness:
  "membership_rows (snd (joinCommunity (sample_request 11 ''user'' 2) sample_world)) =
     membership_rows sample_world @
       [\<lparr>uc_id = 4, user_id = 11, community_id = 2, joined_at = 40\<rparr>] \<and>
   filter (\<lambda>r. \<not> is_pair 11 2 r)
     (membership_rows (snd (joinCommunity (sample_request 11 ''user'' 2) sample_world))) =
     membership_rows sample_world \<and>
   membership_rows (snd (leaveCommunity (sample_request 11 ''user'' 1) sample_world)) =
     [\<lparr>uc_id = 1, user_id = 12, community_id = 1, joined_at = 30\<rparr>,
      \<lparr>uc_id = 2, user_id = 10, community_id = 1, joined_at = 10\<rparr>] \<and>
   filter (\<lambda>r. \<not> is_pair 11 1 r)
     (membership_rows (snd (leaveCommunity (sample_request 11 ''user'' 1) sample_world))) =
     filter (\<lambda>r. \<not> is_pair 11 1 r) (membership_rows sample_world) \<and>
   communities (snd (joinCommunity (sample_request 11 ''user'' 2) sample_world)) =
     communities sample_world \<and>
   communities (snd (leaveCommunity (sample_request 11 ''user'' 1) sample_world)) =
     communities sample_world"
proof -
  have j: "membership_rows (snd (joinCommunity (sample_request 11 ''user'' 2) sample_world)) =
     membership_rows sample_world @
       [\<lparr>uc_id = 4, user_id = 11, community_id = 2, joined_at = 40\<rparr>]"
    by (simp add: sample_defs handler_defs storage_defs monad_defs membership_rows_def
          is_pair_def Let_def)
  have l: "membership_rows (snd (leaveCommunity (sample_request 11 ''user'' 1) sample_world)) =
     [\<lparr>uc_id = 1, user_id = 12, community_id = 1, joined_at = 30\<rparr>,
      \<lparr>uc_id = 2, user_id = 10, community_id = 1, joined_at = 10\<rparr>]"
    by (simp add: sample_defs handler_defs storage_defs monad_defs membership_rows_def
          is_pair_def Let_def)
  have n: "filter (\<lambda>r. \<not> is_pair 11 2 r) (membership_rows sample_world) =
           membership_rows sample_world"
    by (simp add: sample_defs membership_rows_def is_pair_def)
  from join_leave_frame [of "sample_request 11 ''user'' 2" sample_world]
    join_leave_frame [of "sample_request 11 ''user'' 1" sample_world] j l n
  show ?thesis by (simp add: sample_request_def)
qed

section \<open>Error replies\<close>

text \<open>
  C8. For each of the seven handlers, every request and every store: a reply with
  status 400, 403, 404 or 500 has a body that is a JSON object with the single field
  \<open>error\<close>, holding a non-empty message; the handler replies 500 with the message
  "Internal server error" exactly when one of the storage calls it issued failed; and
  every 500 is that one reply, whatever detail the storage error carried.
\<close>

theorem error_responses_uniform:
  assumes "h \<in> set handlers"
  shows
    "(res_status (fst (h req w)) \<in> {400, 403, 404, 500} \<longrightarrow>
        (\<exists>msg. msg \<noteq> [] \<and> res_body (fst (h req w)) = JObj [(''error'', JStr msg)])) \<and>
     (failed (new_calls w (snd (h req w))) \<longleftrightarrow>
        fst (h req w) = respond 500 (JObj [(''error'', JStr ''Internal server error'')])) \<and>
     (res_status (fst (h req w)) = 500 \<longrightarrow>
        fst (h req w) = respond 500 (JObj [(''error'', JStr ''Internal server error'')])) \<and>
     res_status (fst (h req w)) \<in> {200, 201, 400, 403, 404, 500}"
  using handlers_uniform [OF assms, of req]
  unfolding uniform_errors_def internal_server_error_def by blast

theorem error_responses_uniform_witness:
  "joinCommunity \<in> set handlers \<and>
   failed (new_calls (sample_world\<lparr>faults := [None, Some ''connection reset by peer'']\<rparr>)
             (snd (joinCommunity (sample_request 11 ''user'' 2)
                     (sample_world\<lparr>faults := [None, Some ''connection reset by peer'']\<rparr>)))) \<and>
   fst (joinCommunity (sample_request 11 ''user'' 2)
          (sample_world\<lparr>faults := [None, Some ''connection reset by peer'']\<rparr>)) =
     respond 500 (JObj [(''error'', JStr ''Internal server error'')])"
proof -
  have h: "joinCommunity \<in> set handlers" by (simp add: handlers_def)
  have f: "failed (new_calls (sample_world\<lparr>faults := [None, Some ''connection reset by peer'']\<rparr>)
             (snd (joinCommunity (sample_request 11 ''user'' 2)
                     (sample_world\<lparr>faults := [None, Some ''connection reset by peer'']\<rparr>))))"
    by (simp add: sample_defs handler_defs storage_defs monad_defs new_calls_def Let_def
          failed_def)
  from error_responses_uniform [OF h, of "sample_request 11 ''user'' 2"
      "sample_world\<lparr>faults := [None, Some ''connection reset by peer'']\<rparr>"] f h
  show ?thesis by simp
qed

section \<open>Joining twice\<close>

lemma pair_count_le_one:
  "distinct (map (\<lambda>r. (user_id r, community_id r)) rows) \<Longrightarrow>
   length (filter (is_pair u c) rows) \<le> 1"
proof (induction rows)
  case Nil
  then show ?case by simp
next
  case (Cons r rows)
  show ?case
  proof (cases "is_pair u c r")
    case True
    with Cons.prems have "\<forall>x \<in> set rows. \<not> is_pair u c x"
      by (auto simp: is_pair_def image_iff)
    then have "filter (is_pair u c) rows = []" by (simp add: filter_empty_conv)
    with True show ?thesis by simp
  next
    case False
    with Cons show ?thesis by simp
  qed
qed

lemma pair_count_one:
  assumes "distinct (map (\<lambda>r. (user_id r, community_id r)) rows)"
    and "\<exists>r \<in> set rows. is_pair u c r"
  shows "length (filter (is_pair u c) rows) = 1"
proof -
  from assms(2) have "filter (is_pair u c) rows \<noteq> []" by (simp add: filter_empty_conv)
  then have "0 < length (filter (is_pair u c) rows)" by simp
  with pair_count_le_one [OF assms(1), of u c] show ?thesis by linarith
qed

lemma join_succeeds:
  assumes "faults w = []"
    and "req_params_id req \<in> set (map c_id (communities w))"
    and "caller_id (req_user req) \<in> set (map u_id (users w))"
    and "integer_range (req_params_id req)"
  shows "fst (joinCommunity req w) =
           respond 200 (JObj [(''message'', JStr ''Successfully joined community'')])"
    and "faults (snd (joinCommunity req w)) = []"
    and "(\<exists>r \<in> set (membership_rows w). is_pair (caller_id (req_user req)) (req_params_id req) r) \<Longrightarrow>
           membership_rows (snd (joinCommunity req w)) = membership_rows w"
    and "\<not> (\<exists>r \<in> set (membership_rows w). is_pair (caller_id (req_user req)) (req_params_id req) r) \<Longrightarrow>
           \<exists>row. is_pair (caller_id (req_user req)) (req_params_id req) row \<and>
                 joined_at row = current_timestamp w \<and>
                 membership_rows (snd (joinCommunity req w)) = membership_rows w @ [row]"
proof -
  from assms(2) obtain c where c: "find (\<lambda>c. c_id c = req_params_id req) (communities w) = Some c"
    using find_some_key [of "req_params_id req" c_id "communities w"] by blast
  note defs = joinCommunity_def monad_defs Community_findByPk_def createUserCommunityModel_def
    insert_user_community_def membership_rows_def Let_def
  show "fst (joinCommunity req w) =
           respond 200 (JObj [(''message'', JStr ''Successfully joined community'')])"
    using assms c by (cases "user_communities w") (auto simp: defs)
  show "faults (snd (joinCommunity req w)) = []"
    using assms c by (cases "user_communities w") (auto simp: defs)
  show "membership_rows (snd (joinCommunity req w)) = membership_rows w"
    if "\<exists>r \<in> set (membership_rows w). is_pair (caller_id (req_user req)) (req_params_id req) r"
    using that assms c by (cases "user_communities w") (auto simp: defs)
  show "\<exists>row. is_pair (caller_id (req_user req)) (req_params_id req) row \<and>
                 joined_at row = current_timestamp w \<and>
                 membership_rows (snd (joinCommunity req w)) = membership_rows w @ [row]"
    if "\<not> (\<exists>r \<in> set (membership_rows w). is_pair (caller_id (req_user req)) (req_params_id req) r)"
    using that assms c by (cases "user_communities w") (auto simp: defs is_pair_def)
qed

text \<open>
  C1. For a caller who is a row of \<open>users\<close> and a community that exists, in a
  store that satisfies the constraints of the schema and with no storage call failing,
  two calls of \<open>joinCommunity\<close> with the same request both reply 200 with
  \<^verbatim>\<open>{message: 'Successfully joined community'}\<close>, and after the first call as
  after the second the store holds exactly one membership row for the pair; the second
  call leaves the rows as the first left them.
\<close>

theorem joinCommunity_idempotent:
  assumes ok: "schema_ok w" and nf: "faults w = []"
    and ce: "req_params_id req \<in> set (map c_id (communities w))"
    and ue: "caller_id (req_user req) \<in> set (map u_id (users w))"
  shows
    "fst (joinCommunity req w) =
       respond 200 (JObj [(''message'', JStr ''Successfully joined community'')]) \<and>
     fst (joinCommunity req (snd (joinCommunity req w))) = fst (joinCommunity req w) \<and>
     length (filter (is_pair (caller_id (req_user req)) (req_params_id req))
               (membership_rows (snd (joinCommunity req w)))) = 1 \<and>
     length (filter (is_pair (caller_id (req_user req)) (req_params_id req))
               (membership_rows (snd (joinCommunity req (snd (joinCommunity req w)))))) = 1 \<and>
     membership_rows (snd (joinCommunity req (snd (joinCommunity req w)))) =
       membership_rows (snd (joinCommunity req w))"
proof -
  let ?u = "caller_id (req_user req)" and ?c = "req_params_id req"
  let ?w1 = "snd (joinCommunity req w)"
  let ?w2 = "snd (joinCommunity req ?w1)"
  from ok ce have ir: "integer_range ?c" by (auto simp: schema_ok_def)
  have first: "fst (joinCommunity req w) =
       respond 200 (JObj [(''message'', JStr ''Successfully joined community'')])"
    by (rule join_succeeds(1) [OF nf ce ue ir])
  have nf1: "faults ?w1 = []" by (rule join_succeeds(2) [OF nf ce ue ir])
  from join_others [of req w] have same: "communities ?w1 = communities w" "users ?w1 = users w"
    by (simp_all add: others_def)
  from ce ue same have ce1: "?c \<in> set (map c_id (communities ?w1))"
    and ue1: "?u \<in> set (map u_id (users ?w1))" by simp_all
  have one: "length (filter (is_pair ?u ?c) (membership_rows ?w1)) = 1"
  proof (cases "\<exists>r \<in> set (membership_rows w). is_pair ?u ?c r")
    case True
    from ok have "distinct (map (\<lambda>r. (user_id r, community_id r)) (membership_rows w))"
      by (simp add: schema_ok_def)
    then have "length (filter (is_pair ?u ?c) (membership_rows w)) = 1"
      using True by (rule pair_count_one)
    with join_succeeds(3) [OF nf ce ue ir True] show ?thesis by simp
  next
    case False
    then have none: "filter (is_pair ?u ?c) (membership_rows w) = []"
      by (simp add: filter_empty_conv)
    from join_succeeds(4) [OF nf ce ue ir False] obtain row where
      "is_pair ?u ?c row" "membership_rows ?w1 = membership_rows w @ [row]" by blast
    with none show ?thesis by simp
  qed
  then have "filter (is_pair ?u ?c) (membership_rows ?w1) \<noteq> []" by auto
  then have member: "\<exists>r \<in> set (membership_rows ?w1). is_pair ?u ?c r"
    by (simp add: filter_empty_conv)
  have second: "fst (joinCommunity req ?w1) =
       respond 200 (JObj [(''message'', JStr ''Successfully joined community'')])"
    by (rule join_succeeds(1) [OF nf1 ce1 ue1 ir])
  have rows2: "membership_rows ?w2 = membership_rows ?w1"
    by (rule join_succeeds(3) [OF nf1 ce1 ue1 ir member])
  from first second one rows2 show ?thesis by simp
qed

theorem joinCommunity_idempotent_witness:
  "schema_ok sample_world \<and> faults sample_world = [] \<and>
   req_params_id (sample_request 11 ''user'' 2) \<in> set (map c_id (communities sample_world)) \<and>
   caller_id (req_user (sample_request 11 ''user'' 2)) \<in> set (map u_id (users sample_world)) \<and>
   fst (joinCommunity (sample_request 11 ''user'' 2) sample_world) =
     respond 200 (JObj [(''message'', JStr ''Successfully joined community'')]) \<and>
   fst (joinCommunity (sample_request 11 ''user'' 2)
          (snd (joinCommunity (sample_request 11 ''user'' 2) sample_world))) =
     respond 200 (JObj [(''message'', JStr ''Successfully joined community'')]) \<and>
   length (filter (is_pair 11 2)
             (membership_rows (snd (joinCommunity (sample_request 11 ''user'' 2)
                (snd (joinCommunity (sample_request 11 ''user'' 2) sample_world)))))) = 1 \<and>
   length (filter (is_pair 11 2) (membership_rows sample_world)) = 0"
proof -
  have ok: "schema_ok sample_world" by (rule sample_schema_ok)
  have nf: "faults sample_world = []" by (simp add: sample_defs)
  have ce: "req_params_id (sample_request 11 ''user'' 2) \<in> set (map c_id (communities sample_world))"
    by (simp add: sample_defs)
  have ue: "caller_id (req_user (sample_request 11 ''user'' 2)) \<in> set (map u_id (users sample_world))"
    by (simp add: sample_defs)
  have z: "length (filter (is_pair 11 2) (membership_rows sample_world)) = 0"
    by (simp add: sample_defs membership_rows_def is_pair_def)
  from joinCommunity_idempotent [OF ok nf ce ue] ok nf ce ue z show ?thesis
    by (simp add: sample_request_sel)
qed

section \<open>Leaving does not look the community up\<close>

lemma storage_call_issued:
  assumes silent: "\<And>w. issued (snd (run w)) = issued w"
  shows "\<exists>out. issued (snd (storage_call q run w)) = issued w @ [(q, out)]"
proof (cases "faults w")
  case Nil
  obtain r w' where rw: "run w = (r, w')" by (cases "run w")
  with silent [of w] have "issued w' = issued w" by simp
  with Nil rw show ?thesis by (simp add: storage_call_def)
next
  case (Cons a rest)
  show ?thesis
  proof (cases a)
    case None
    obtain r w' where rw: "run (w\<lparr>faults := rest\<rparr>) = (r, w')"
      by (cases "run (w\<lparr>faults := rest\<rparr>)")
    with silent [of "w\<lparr>faults := rest\<rparr>"] have "issued w' = issued w" by simp
    with Cons None rw show ?thesis by (simp add: storage_call_def)
  next
    case (Some d)
    with Cons show ?thesis by (simp add: storage_call_def)
  qed
qed

lemma first_call:
  assumes silent: "\<And>w. issued (snd (run w)) = issued w" and k: "\<And>x. traced Q (k x)"
  shows "\<exists>out rest.
           new_calls w (snd (try_catch (await (storage_call q run) k) h w)) = (q, out) # rest"
proof -
  obtain r w1 where c: "storage_call q run w = (r, w1)" by (cases "storage_call q run w")
  from storage_call_issued [OF silent, of q w] c obtain out
    where i1: "issued w1 = issued w @ [(q, out)]" by auto
  show ?thesis
  proof (cases r)
    case (Inl e)
    with c i1 show ?thesis by (simp add: try_catch_def await_def new_calls_def)
  next
    case (Inr x)
    from k [of x] obtain new where n: "issued (snd (k x w1)) = issued w1 @ new"
      unfolding traced_def by blast
    obtain r2 w2 where k2: "k x w1 = (r2, w2)" by (cases "k x w1")
    with n i1 have "issued w2 = issued w @ (q, out) # new" by simp
    with Inr c k2 show ?thesis
      by (cases r2) (simp_all add: try_catch_def await_def new_calls_def)
  qed
qed

lemma join_first_call:
  "\<exists>out rest. new_calls w (snd (joinCommunity req w)) =
      (CommunityFindByPk (req_params_id req), out) # rest"
  unfolding joinCommunity_def Let_def Community_findByPk_def
  by (rule first_call [where Q = UNIV]) (simp_all add: body_rules)

lemma members_first_call:
  "\<exists>out rest. new_calls w (snd (getCommunityMembers req w)) =
      (CommunityFindByPk (req_params_id req), out) # rest"
  unfolding getCommunityMembers_def Let_def Community_findByPk_def
  by (rule first_call [where Q = UNIV]) (simp_all add: body_rules)

lemma lookup_missing:
  assumes "faults w = []" and "integer_range k" and "k \<notin> set (map c_id (communities w))"
  shows "Community_findByPk k w =
           (Inr None, w\<lparr>issued := issued w @ [(CommunityFindByPk k, None)]\<rparr>)"
  using assms find_none_key [of k c_id "communities w"]
  by (simp add: findByPk_run)

text \<open>
  C9 says that \<open>leaveCommunity\<close> never checks that the community exists, and that
  for a community that does not exist it answers 404 with "Membership not found". The
  first half holds: for every request, store and fault schedule \<open>leaveCommunity\<close>
  issues no lookup of the community, whereas the first call that \<open>joinCommunity\<close>
  and \<open>getCommunityMembers\<close> issue is that lookup, and they answer 404 with
  "Community not found" when no community has the id (an id within the range of
  INTEGER, no storage call failing). The reply of \<open>leaveCommunity\<close> is not what the
  claim says: its test of \<^verbatim>\<open>result[1] === 0\<close> never holds (see C2), so it answers
  200 with "Successfully left community" for a community that does not exist.
\<close>

theorem leaveCommunity_no_existence_check:
  "(\<forall>k. CommunityFindByPk k \<notin> fst ` set (new_calls w (snd (leaveCommunity req w)))) \<and>
   (\<exists>out rest. new_calls w (snd (joinCommunity req w)) =
      (CommunityFindByPk (req_params_id req), out) # rest) \<and>
   (\<exists>out rest. new_calls w (snd (getCommunityMembers req w)) =
      (CommunityFindByPk (req_params_id req), out) # rest) \<and>
   (faults w = [] \<and> integer_range (req_params_id req) \<and>
    req_params_id req \<notin> set (map c_id (communities w)) \<longrightarrow>
      fst (leaveCommunity req w) =
        respond 200 (JObj [(''message'', JStr ''Successfully left community'')]) \<and>
      fst (joinCommunity req w) =
        respond 404 (JObj [(''error'', JStr ''Community not found'')]) \<and>
      fst (getCommunityMembers req w) =
        respond 404 (JObj [(''error'', JStr ''Community not found'')]))"
proof (intro conjI impI allI)
  fix k
  from leaveCommunity_uniform [of req]
  have "fst ` set (new_calls w (snd (leaveCommunity req w))) \<subseteq>
          {CreateTableIfNotExists,
           DeleteMembership (caller_id (req_user req)) (req_params_id req)}"
    unfolding uniform_errors_def by blast
  then show "CommunityFindByPk k \<notin> fst ` set (new_calls w (snd (leaveCommunity req w)))"
    by auto
next
  show "\<exists>out rest. new_calls w (snd (joinCommunity req w)) =
      (CommunityFindByPk (req_params_id req), out) # rest"
    by (rule join_first_call)
next
  show "\<exists>out rest. new_calls w (snd (getCommunityMembers req w)) =
      (CommunityFindByPk (req_params_id req), out) # rest"
    by (rule members_first_call)
next
  assume h: "faults w = [] \<and> integer_range (req_params_id req) \<and>
             req_params_id req \<notin> set (map c_id (communities w))"
  then show "fst (leaveCommunity req w) =
        respond 200 (JObj [(''message'', JStr ''Successfully left community'')])"
    by (simp add: leave_run(1))
next
  assume h: "faults w = [] \<and> integer_range (req_params_id req) \<and>
             req_params_id req \<notin> set (map c_id (communities w))"
  then show "fst (joinCommunity req w) =
        respond 404 (JObj [(''error'', JStr ''Community not found'')])"
    by (simp add: joinCommunity_def Let_def await_def try_catch_def reply_def lookup_missing)
next
  assume h: "faults w = [] \<and> integer_range (req_params_id req) \<and>
             req_params_id req \<notin> set (map c_id (communities w))"
  then show "fst (getCommunityMembers req w) =
        respond 404 (JObj [(''error'', JStr ''Community not found'')])"
    by (simp add: getCommunityMembers_def Let_def await_def try_catch_def reply_def lookup_missing)
qed

theorem leaveCommunity_no_existence_check_witness:
  "faults sample_world = [] \<and> integer_range 7 \<and>
   req_params_id (sample_request 10 ''user'' 7) \<notin> set (map c_id (communities sample_world)) \<and>
   fst (leaveCommunity (sample_request 10 ''user'' 7) sample_world) =
     respond 200 (JObj [(''message'', JStr ''Successfully left community'')]) \<and>
   fst (joinCommunity (sample_request 10 ''user'' 7) sample_world) =
     respond 404 (JObj [(''error'', JStr ''Community not found'')]) \<and>
   fst (getCommunityMembers (sample_request 10 ''user'' 7) sample_world) =
     respond 404 (JObj [(''error'', JStr ''Community not found'')]) \<and>
   new_calls sample_world (snd (leaveCommunity (sample_request 10 ''user'' 7) sample_world)) =
     [(CreateTableIfNotExists, None), (DeleteMembership 10 7, None)]"
proof -
  have nf: "faults sample_world = []" by (simp add: sample_defs)
  have ir: "integer_range 7" by (simp add: integer_range_def)
  have ce: "req_params_id (sample_request 10 ''user'' 7) \<notin> set (map c_id (communities sample_world))"
    by (simp add: sample_defs)
  have tr: "new_calls sample_world (snd (leaveCommunity (sample_request 10 ''user'' 7) sample_world)) =
     [(CreateTableIfNotExists, None), (DeleteMembership 10 7, None)]"
    using leave_run(3) [of sample_world "sample_request 10 ''user'' 7"] nf ir
    by (simp add: sample_request_sel)
  from leaveCommunity_no_existence_check [of sample_world "sample_request 10 ''user'' 7"]
    nf ir ce tr
  show ?thesis by (simp add: sample_request_sel)
qed


section \<open>Listing members\<close>









lemma members_sample:
  "fst (getCommunityMembers (sample_request 11 ''user'' 1) sample_world) =
     respond 200 (JArr
       [JObj [(''id'', JNum 10), (''name'', JStr ''alice''), (''email'', JStr ''alice@example.org''),
              (''profile_picture'', JNull), (''joined_at'', JNum 10)],
        JObj [(''id'', JNum 11), (''name'', JStr ''bob''), (''email'', JStr ''bob@example.org''),
              (''profile_picture'', JNull), (''joined_at'', JNum 20)],
        JObj [(''id'', JNum 12), (''name'', JStr ''carol''), (''email'', JStr ''carol@example.org''),
              (''profile_picture'', JStr ''carol.png''), (''joined_at'', JNum 30)]])"
  by (simp add: sample_defs handler_defs storage_defs monad_defs Let_def members_join_def
        member_of_def member_json_def)

section \<open>Two joins of one pair at the same time\<close>








end
